theory Spec2Isabelle
  imports Main
begin

section \<open>Session cycle: \<^verbatim>\<open>src/src/hooks/use-pomodoro.ts\<close>\<close>

text \<open>
  \<^verbatim>\<open>PomodoroSession = "focus" | "break"\<close> and the \<^verbatim>\<open>PomodoroState\<close> interface.
  The two counters start at 0 and only ever grow by one, so they are natural numbers.
\<close>

datatype PomodoroSession = Focus | Break

record PomodoroState =
  currentSession :: PomodoroSession
  sessionCount :: nat
  totalCycles :: nat
  isActive :: bool

text \<open>
  The numeric part of \<^verbatim>\<open>PomodoroConfig\<close>. The two optional callbacks are not data: every
  call made through them is appended to the hook's \<open>emitted\<close> trace instead.
\<close>

record PomodoroConfig =
  focusMinutes :: int
  breakMinutes :: int

datatype callback = OnSessionComplete PomodoroSession | OnCycleComplete

text \<open>
  What \<^verbatim>\<open>usePomodoro\<close> owns: the two \<^verbatim>\<open>useState\<close> cells, the \<^verbatim>\<open>stateRef\<close> cell that
  shadows \<open>state\<close> (written by an effect after each render, lines 54-56), and the trace
  of callback invocations, oldest first.
\<close>

record pomodoro_hook =
  config :: PomodoroConfig
  state :: PomodoroState
  stateRef :: PomodoroState
  emitted :: "callback list"

definition initialState :: PomodoroState where
  "initialState = \<lparr>currentSession = Focus, sessionCount = 0, totalCycles = 0, isActive = False\<rparr>"

definition usePomodoro :: "PomodoroConfig \<Rightarrow> pomodoro_hook" where
  "usePomodoro initialConfig =
     \<lparr>config = initialConfig, state = initialState, stateRef = initialState, emitted = []\<rparr>"

text \<open>The configuration \<^verbatim>\<open>App.tsx\<close> starts with: 25 and 5 minutes.\<close>

definition pomodoroDefaults :: PomodoroConfig where
  "pomodoroDefaults = \<lparr>focusMinutes = 25, breakMinutes = 5\<rparr>"

text \<open>The effect of lines 54-56: after a render, \<^verbatim>\<open>stateRef.current = state\<close>.\<close>

definition commitEffects :: "pomodoro_hook \<Rightarrow> pomodoro_hook" where
  "commitEffects h = h\<lparr>stateRef := state h\<rparr>"

definition updateConfig :: "int option \<Rightarrow> int option \<Rightarrow> pomodoro_hook \<Rightarrow> pomodoro_hook" where
  "updateConfig newFocus newBreak h =
     h\<lparr>config := \<lparr>focusMinutes = (case newFocus of None \<Rightarrow> focusMinutes (config h) | Some m \<Rightarrow> m),
                   breakMinutes = (case newBreak of None \<Rightarrow> breakMinutes (config h) | Some m \<Rightarrow> m)\<rparr>\<rparr>"

definition startSession :: "pomodoro_hook \<Rightarrow> pomodoro_hook" where
  "startSession h = h\<lparr>state := (state h)\<lparr>isActive := True\<rparr>\<rparr>"

definition pauseSession :: "pomodoro_hook \<Rightarrow> pomodoro_hook" where
  "pauseSession h = h\<lparr>state := (state h)\<lparr>isActive := False\<rparr>\<rparr>"

definition stopSession :: "pomodoro_hook \<Rightarrow> pomodoro_hook" where
  "stopSession h = h\<lparr>state := (state h)\<lparr>isActive := False\<rparr>\<rparr>"

definition resetSession :: "pomodoro_hook \<Rightarrow> pomodoro_hook" where
  "resetSession h = h\<lparr>state := initialState\<rparr>"

definition switchToBreak :: "pomodoro_hook \<Rightarrow> pomodoro_hook" where
  "switchToBreak h = h\<lparr>state := (state h)\<lparr>currentSession := Break, isActive := False\<rparr>\<rparr>"

definition switchToFocus :: "pomodoro_hook \<Rightarrow> pomodoro_hook" where
  "switchToFocus h =
     h\<lparr>state := (state h)\<lparr>currentSession := Focus,
                             sessionCount := sessionCount (state h) + 1,
                             isActive := False\<rparr>\<rparr>"

text \<open>
  Lines 108-132. The handler reads \<^verbatim>\<open>stateRef.current\<close>, not \<open>state\<close>, builds the next
  state from it and stores it with \<^verbatim>\<open>setState\<close>; then it calls the callbacks.
\<close>

fun handleSessionComplete :: "PomodoroSession \<Rightarrow> pomodoro_hook \<Rightarrow> pomodoro_hook" where
  "handleSessionComplete Focus h =
     h\<lparr>state := (stateRef h)\<lparr>currentSession := Break, isActive := False\<rparr>,
       emitted := emitted h @ [OnSessionComplete Focus]\<rparr>"
| "handleSessionComplete Break h =
     h\<lparr>state := (stateRef h)\<lparr>currentSession := Focus,
                                sessionCount := sessionCount (stateRef h) + 1,
                                totalCycles := totalCycles (stateRef h) + 1,
                                isActive := False\<rparr>,
       emitted := emitted h @ [OnSessionComplete Break, OnCycleComplete]\<rparr>"

section \<open>Local countdown: \<^verbatim>\<open>src/src/hooks/use-countdown.ts\<close>\<close>

text \<open>
  The three boolean \<^verbatim>\<open>useState\<close> cells that both versions of \<^verbatim>\<open>useCountdown\<close> keep,
  together with the number of times \<^verbatim>\<open>onCompleteRef.current?.()\<close> has been called so far.
  The callback itself belongs to the caller; the count is what the hook contributes.
\<close>

record countdown_flags =
  isRunning :: bool
  isPaused :: bool
  isEnded :: bool
  onCompleteCalls :: nat

text \<open>
  The local version adds \<^verbatim>\<open>totalSeconds\<close>. Durations are JavaScript numbers on which no
  bound is enforced, so they are integers here and may be negative.
\<close>

record countdown_state = countdown_flags +
  totalSeconds :: int

record UseCountdownOptions =
  initialMinutes :: int
  initialSeconds :: int

definition initialTotalSeconds :: "UseCountdownOptions \<Rightarrow> int" where
  "initialTotalSeconds opts = initialMinutes opts * 60 + initialSeconds opts"

definition defaultOptions :: UseCountdownOptions where
  "defaultOptions = \<lparr>initialMinutes = 25, initialSeconds = 0\<rparr>"

definition useCountdown :: "UseCountdownOptions \<Rightarrow> countdown_state" where
  "useCountdown opts =
     \<lparr>isRunning = False, isPaused = False, isEnded = False, onCompleteCalls = 0,
      totalSeconds = initialTotalSeconds opts\<rparr>"

text \<open>Lines 102-110. \<^verbatim>\<open>initialTotalSeconds\<close> comes from the options of the current render.\<close>

definition start :: "UseCountdownOptions \<Rightarrow> countdown_state \<Rightarrow> countdown_state" where
  "start opts s =
     (if isEnded s
      then s\<lparr>totalSeconds := initialTotalSeconds opts, isEnded := False,
             isRunning := True, isPaused := False\<rparr>
      else s\<lparr>isRunning := True, isPaused := False\<rparr>)"

text \<open>Lines 113-116.\<close>

definition pause :: "countdown_state \<Rightarrow> countdown_state" where
  "pause s = s\<lparr>isPaused := True, isRunning := False\<rparr>"

text \<open>Lines 119-123.\<close>

definition stop :: "countdown_state \<Rightarrow> countdown_state" where
  "stop s = s\<lparr>isRunning := False, isPaused := False, isEnded := True\<rparr>"

text \<open>Lines 126-131.\<close>

definition reset :: "UseCountdownOptions \<Rightarrow> countdown_state \<Rightarrow> countdown_state" where
  "reset opts s =
     s\<lparr>totalSeconds := initialTotalSeconds opts,
       isRunning := False, isPaused := False, isEnded := False\<rparr>"

text \<open>Lines 134-140. The callback has no dependency: it never sees the options.\<close>

definition setTime :: "int \<Rightarrow> int \<Rightarrow> countdown_state \<Rightarrow> countdown_state" where
  "setTime minutes seconds s =
     s\<lparr>totalSeconds := minutes * 60 + seconds,
       isRunning := False, isPaused := False, isEnded := False\<rparr>"

text \<open>
  Lines 78-91, the body of the \<^verbatim>\<open>setInterval\<close> callback: a positive count is decremented;
  otherwise the run ends and the completion callback is called.
\<close>

definition intervalCallback :: "countdown_state \<Rightarrow> countdown_state" where
  "intervalCallback s =
     (if totalSeconds s > 0
      then s\<lparr>totalSeconds := totalSeconds s - 1\<rparr>
      else s\<lparr>totalSeconds := 0, isRunning := False, isEnded := True,
             onCompleteCalls := onCompleteCalls s + 1\<rparr>)"

text \<open>
  Lines 72-99: the interval exists only while \<^verbatim>\<open>isRunning && !isPaused\<close>; the effect clears
  it whenever one of the two flags changes. One second passing is therefore a call of the
  callback when the interval is alive and nothing otherwise.
\<close>

definition intervalActive :: "countdown_state \<Rightarrow> bool" where
  "intervalActive s = (isRunning s \<and> \<not> isPaused s)"

definition tick :: "countdown_state \<Rightarrow> countdown_state" where
  "tick s = (if intervalActive s then intervalCallback s else s)"

text \<open>
  Letting the countdown run with no operation in between: seconds pass for as long as the
  interval is alive. The loop ends because each tick either lowers a positive count or
  kills the interval.
\<close>

function runToCompletion :: "countdown_state \<Rightarrow> countdown_state" where
  "runToCompletion s = (if intervalActive s then runToCompletion (tick s) else s)"
  by pat_completeness auto
termination
  by (relation "measure (\<lambda>s. if intervalActive s then nat (totalSeconds s) + 1 else 0)")
     (auto simp: tick_def intervalCallback_def intervalActive_def)

text \<open>The operations and the passing of a second, as events applied in order.\<close>

datatype event = Start | Pause | Stop | Reset | SetTime int int | Tick

fun step :: "UseCountdownOptions \<Rightarrow> countdown_state \<Rightarrow> event \<Rightarrow> countdown_state" where
  "step opts s Start = start opts s"
| "step opts s Pause = pause s"
| "step opts s Stop = stop s"
| "step opts s Reset = reset opts s"
| "step opts s (SetTime minutes seconds) = setTime minutes seconds s"
| "step opts s Tick = tick s"

fun exec :: "UseCountdownOptions \<Rightarrow> countdown_state \<Rightarrow> event list \<Rightarrow> countdown_state" where
  "exec opts s [] = s"
| "exec opts s (e # es) = exec opts (step opts s e) es"

text \<open>
  The phase of a countdown, read off the three flags the way \<^verbatim>\<open>App.tsx\<close> (lines 161-185)
  chooses its buttons: pause is offered when \<^verbatim>\<open>isRunning && !isPaused\<close>, resume when
  \<^verbatim>\<open>isPaused\<close>, start when all three flags are false. Every theorem below that names a
  phase also states the flags themselves.
\<close>

datatype phase = Idle | Running | Paused | Ended

definition phase :: "'a countdown_flags_scheme \<Rightarrow> phase" where
  "phase s =
     (if isRunning s \<and> \<not> isPaused s then Running
      else if isPaused s then Paused
      else if isEnded s then Ended
      else Idle)"

text \<open>A duration is positive: what the settings collaborator guarantees for its minutes.\<close>

fun positiveDuration :: "event \<Rightarrow> bool" where
  "positiveDuration (SetTime minutes seconds) = (0 < minutes * 60 + seconds)"
| "positiveDuration _ = True"

text \<open>
  The invariant behind the zero-remaining property: the count is never negative, and it is
  zero only in a countdown that has been started, paused or ended.
\<close>

definition zeroInv :: "countdown_state \<Rightarrow> bool" where
  "zeroInv s =
     (0 \<le> totalSeconds s \<and> (totalSeconds s = 0 \<longrightarrow> isRunning s \<or> isPaused s \<or> isEnded s))"

text \<open>The options of the tests: a countdown of three seconds.\<close>

definition threeSeconds :: UseCountdownOptions where
  "threeSeconds = \<lparr>initialMinutes = 0, initialSeconds = 3\<rparr>"

section \<open>Countdown driven by the timer service: \<^verbatim>\<open>src/unnamed/part_001\<close>\<close>

text \<open>
  This version of \<^verbatim>\<open>useCountdown\<close> keeps the same flags and \<^verbatim>\<open>currentTotalSeconds\<close>, and
  asks an external timer service to count. A call \<^verbatim>\<open>await invoke(...)\<close> either resolves
  with a value or rejects; the outcome is an input of the operation that makes the call.
\<close>

record service_countdown = countdown_flags +
  currentTotalSeconds :: int

datatype 'a invoke_result = Resolved 'a | Rejected

text \<open>\<^verbatim>\<open>Math.ceil(ms / 1000)\<close> on an integer number of milliseconds.\<close>

definition ceilSeconds :: "int \<Rightarrow> int" where
  "ceilSeconds ms = - ((- ms) div 1000)"

definition useCountdown_ipc :: "UseCountdownOptions \<Rightarrow> service_countdown" where
  "useCountdown_ipc opts =
     \<lparr>isRunning = False, isPaused = False, isEnded = False, onCompleteCalls = 0,
      currentTotalSeconds = initialTotalSeconds opts\<rparr>"

text \<open>
  Lines 165-186. In the first branch the two state updates come before the awaited
  \<^verbatim>\<open>start_timer\<close> call, so they are made whether or not the call rejects; the other two
  branches (\<^verbatim>\<open>resume_timer\<close>, \<^verbatim>\<open>start_timer\<close>) call first. A rejection skips the rest
  of the \<^verbatim>\<open>try\<close> block and is logged.
\<close>

definition start_ipc ::
  "UseCountdownOptions \<Rightarrow> unit invoke_result \<Rightarrow> service_countdown \<Rightarrow> service_countdown" where
  "start_ipc opts r s =
     (if isEnded s then
        (case r of
           Rejected \<Rightarrow> s\<lparr>currentTotalSeconds := initialTotalSeconds opts, isEnded := False\<rparr>
         | Resolved _ \<Rightarrow> s\<lparr>currentTotalSeconds := initialTotalSeconds opts, isEnded := False,
                           isRunning := True, isPaused := False\<rparr>)
      else if isPaused s then
        (case r of Rejected \<Rightarrow> s | Resolved _ \<Rightarrow> s\<lparr>isRunning := True, isPaused := False\<rparr>)
      else
        (case r of Rejected \<Rightarrow> s | Resolved _ \<Rightarrow> s\<lparr>isRunning := True, isPaused := False\<rparr>))"

text \<open>Lines 189-197.\<close>

definition pause_ipc :: "unit invoke_result \<Rightarrow> service_countdown \<Rightarrow> service_countdown" where
  "pause_ipc r s =
     (case r of Rejected \<Rightarrow> s | Resolved _ \<Rightarrow> s\<lparr>isPaused := True, isRunning := False\<rparr>)"

text \<open>Lines 200-209.\<close>

definition stop_ipc :: "unit invoke_result \<Rightarrow> service_countdown \<Rightarrow> service_countdown" where
  "stop_ipc r s =
     (case r of
        Rejected \<Rightarrow> s
      | Resolved _ \<Rightarrow> s\<lparr>isRunning := False, isPaused := False, isEnded := True\<rparr>)"

text \<open>Lines 212-222.\<close>

definition reset_ipc ::
  "UseCountdownOptions \<Rightarrow> unit invoke_result \<Rightarrow> service_countdown \<Rightarrow> service_countdown" where
  "reset_ipc opts r s =
     (case r of
        Rejected \<Rightarrow> s
      | Resolved _ \<Rightarrow> s\<lparr>currentTotalSeconds := initialTotalSeconds opts,
                        isRunning := False, isPaused := False, isEnded := False\<rparr>)"

text \<open>Lines 225-236.\<close>

definition setTime_ipc ::
  "int \<Rightarrow> int \<Rightarrow> unit invoke_result \<Rightarrow> service_countdown \<Rightarrow> service_countdown" where
  "setTime_ipc minutes seconds r s =
     (case r of
        Rejected \<Rightarrow> s
      | Resolved _ \<Rightarrow> s\<lparr>currentTotalSeconds := minutes * 60 + seconds,
                        isRunning := False, isPaused := False, isEnded := False\<rparr>)"

text \<open>Lines 96-99, the \<^verbatim>\<open>timer://tick\<close> listener.\<close>

definition onTimerTick :: "int \<Rightarrow> service_countdown \<Rightarrow> service_countdown" where
  "onTimerTick remaining_ms s = s\<lparr>currentTotalSeconds := ceilSeconds remaining_ms\<rparr>"

text \<open>Lines 102-107, the \<^verbatim>\<open>timer://done\<close> listener. It tests nothing.\<close>

definition onTimerDone :: "service_countdown \<Rightarrow> service_countdown" where
  "onTimerDone s =
     s\<lparr>currentTotalSeconds := 0, isRunning := False, isEnded := True,
       onCompleteCalls := onCompleteCalls s + 1\<rparr>"

text \<open>
  Lines 60-86. \<^verbatim>\<open>get_timer_remaining\<close> resolves with the remaining milliseconds or with
  \<^verbatim>\<open>null\<close> when no timer is active.
\<close>

definition syncTimerState ::
  "int option invoke_result \<Rightarrow> service_countdown \<Rightarrow> service_countdown" where
  "syncTimerState r s =
     (case r of
        Rejected \<Rightarrow> s
      | Resolved (Some remaining) \<Rightarrow>
          (if ceilSeconds remaining > 0 then s\<lparr>currentTotalSeconds := ceilSeconds remaining\<rparr>
           else if ceilSeconds remaining = 0 \<and> (isRunning s \<or> isPaused s)
           then s\<lparr>currentTotalSeconds := ceilSeconds remaining,
                  isRunning := False, isPaused := False, isEnded := True,
                  onCompleteCalls := onCompleteCalls s + 1\<rparr>
           else s\<lparr>currentTotalSeconds := ceilSeconds remaining\<rparr>)
      | Resolved None \<Rightarrow>
          (if isRunning s \<and> \<not> isPaused s then s\<lparr>isRunning := False, isEnded := True\<rparr>
           else s))"

text \<open>
  Lines 122-145: the resynchronisation runs on \<^verbatim>\<open>focus\<close> (and on becoming visible) only
  while the countdown is running or paused.
\<close>

definition handleFocus ::
  "int option invoke_result \<Rightarrow> service_countdown \<Rightarrow> service_countdown" where
  "handleFocus r s = (if isRunning s \<or> isPaused s then syncTimerState r s else s)"

section \<open>The application: \<^verbatim>\<open>src/src/App.tsx\<close>\<close>

text \<open>
  The two duration cells of \<^verbatim>\<open>App\<close> and the two hooks it uses (the countdown is the one it
  imports, \<^verbatim>\<open>@/hooks/use-countdown\<close>).
\<close>

record App =
  app_focusMinutes :: int
  app_breakMinutes :: int
  pomodoro :: pomodoro_hook
  countdown :: countdown_state

text \<open>Lines 79-85; the result is what \<^verbatim>\<open>useCountdown\<close> receives as its options (lines 93-97).\<close>

definition currentTime :: "App \<Rightarrow> UseCountdownOptions" where
  "currentTime a =
     (if currentSession (state (pomodoro a)) = Focus
      then \<lparr>initialMinutes = app_focusMinutes a, initialSeconds = 0\<rparr>
      else \<lparr>initialMinutes = app_breakMinutes a, initialSeconds = 0\<rparr>)"

text \<open>Lines 74-76.\<close>

definition updateConfigEffect :: "App \<Rightarrow> App" where
  "updateConfigEffect a =
     a\<lparr>pomodoro := updateConfig (Some (app_focusMinutes a)) (Some (app_breakMinutes a)) (pomodoro a)\<rparr>"

text \<open>
  Lines 100-105. The effect depends on \<^verbatim>\<open>currentSession\<close>, \<^verbatim>\<open>focusMinutes\<close> and
  \<^verbatim>\<open>breakMinutes\<close>, and does not look at the countdown's flags.
\<close>

definition sessionChangeEffect :: "App \<Rightarrow> App" where
  "sessionChangeEffect a =
     a\<lparr>countdown := setTime (initialMinutes (currentTime a)) (initialSeconds (currentTime a))
                       (reset (currentTime a) (countdown a))\<rparr>"

text \<open>The first render, with both effects run.\<close>

definition mountApp :: "int \<Rightarrow> int \<Rightarrow> App" where
  "mountApp storedFocus storedBreak =
     sessionChangeEffect (updateConfigEffect
       \<lparr>app_focusMinutes = storedFocus, app_breakMinutes = storedBreak,
        pomodoro = usePomodoro \<lparr>focusMinutes = storedFocus, breakMinutes = storedBreak\<rparr>,
        countdown = useCountdown \<lparr>initialMinutes = storedFocus, initialSeconds = 0\<rparr>\<rparr>)"

text \<open>
  Lines 114-123. Storing the value it already holds leaves a state cell alone, so no render
  and no effect follows; otherwise the render runs the two effects that depend on it.
\<close>

definition handleFocusMinutesChange :: "int \<Rightarrow> App \<Rightarrow> App" where
  "handleFocusMinutesChange minutes a =
     (if minutes = app_focusMinutes a then a
      else sessionChangeEffect (updateConfigEffect (a\<lparr>app_focusMinutes := minutes\<rparr>)))"

definition handleBreakMinutesChange :: "int \<Rightarrow> App \<Rightarrow> App" where
  "handleBreakMinutesChange minutes a =
     (if minutes = app_breakMinutes a then a
      else sessionChangeEffect (updateConfigEffect (a\<lparr>app_breakMinutes := minutes\<rparr>)))"

text \<open>The start, pause and resume buttons (lines 161-180).\<close>

definition clickStart :: "App \<Rightarrow> App" where
  "clickStart a = a\<lparr>countdown := start (currentTime a) (countdown a)\<rparr>"

definition clickPause :: "App \<Rightarrow> App" where
  "clickPause a = a\<lparr>countdown := pause (countdown a)\<rparr>"

section \<open>Properties of the session cycle\<close>

text \<open>
  C1. From every session-cycle state (the hook after its effects have run, so that the ref
  shadows the state), \<open>handleSessionComplete Focus\<close> moves to \<open>Break\<close>, clears \<open>isActive\<close>
  and keeps both counters; \<open>handleSessionComplete Break\<close> moves to \<open>Focus\<close>, clears
  \<open>isActive\<close> and adds exactly one to \<open>sessionCount\<close> and to \<open>totalCycles\<close>.
\<close>

theorem handleSessionComplete_transitions:
  "state (handleSessionComplete Focus (commitEffects h)) =
     (state h)\<lparr>currentSession := Break, isActive := False\<rparr>
   \<and> sessionCount (state (handleSessionComplete Focus (commitEffects h))) = sessionCount (state h)
   \<and> totalCycles (state (handleSessionComplete Focus (commitEffects h))) = totalCycles (state h)
   \<and> currentSession (state (handleSessionComplete Break (commitEffects h))) = Focus
   \<and> isActive (state (handleSessionComplete Break (commitEffects h))) = False
   \<and> sessionCount (state (handleSessionComplete Break (commitEffects h))) = sessionCount (state h) + 1
   \<and> totalCycles (state (handleSessionComplete Break (commitEffects h))) = totalCycles (state h) + 1"
  by (simp add: commitEffects_def)

text \<open>
  C10, as claimed, fails in its last part: the handler computes the next state from
  \<^verbatim>\<open>stateRef.current\<close>, which only the effect after a render refreshes. On a freshly
  created hook two back-to-back calls with \<open>Break\<close> read the same ref and leave both
  counters at 1, not 2.
\<close>

theorem consecutive_break_calls_counterexample:
  "sessionCount (state (handleSessionComplete Break
      (handleSessionComplete Break (usePomodoro pomodoroDefaults))))
     \<noteq> sessionCount (state (usePomodoro pomodoroDefaults)) + 2
   \<and> totalCycles (state (handleSessionComplete Break
      (handleSessionComplete Break (usePomodoro pomodoroDefaults))))
     \<noteq> totalCycles (state (usePomodoro pomodoroDefaults)) + 2"
  by (simp add: usePomodoro_def initialState_def)

text \<open>
  C10, amended. The branch taken depends on the argument only: the result of
  \<open>handleSessionComplete session\<close> is the same whatever \<open>currentSession\<close> was before, and
  \<open>handleSessionComplete Break\<close> counts even when the cycle is already in \<open>Focus\<close>. Two
  calls with \<open>Break\<close> add two to both counters when the hook renders between them (the
  ref is refreshed after the first); two back-to-back calls within one render read the
  same ref and add one.
\<close>

theorem handleSessionComplete_ignores_currentSession:
  "state (handleSessionComplete session
            (commitEffects (h\<lparr>state := (state h)\<lparr>currentSession := c\<rparr>\<rparr>))) =
     state (handleSessionComplete session (commitEffects h))
   \<and> state (handleSessionComplete Break
              (commitEffects (h\<lparr>state := (state h)\<lparr>currentSession := Focus\<rparr>\<rparr>))) =
       (state h)\<lparr>currentSession := Focus, sessionCount := sessionCount (state h) + 1,
                 totalCycles := totalCycles (state h) + 1, isActive := False\<rparr>
   \<and> sessionCount (state (handleSessionComplete Break (commitEffects
        (handleSessionComplete Break (commitEffects h))))) = sessionCount (state h) + 2
   \<and> totalCycles (state (handleSessionComplete Break (commitEffects
        (handleSessionComplete Break (commitEffects h))))) = totalCycles (state h) + 2
   \<and> currentSession (state (handleSessionComplete Break (commitEffects
        (handleSessionComplete Break (commitEffects h))))) = Focus
   \<and> sessionCount (state (handleSessionComplete Break
        (handleSessionComplete Break (commitEffects h)))) = sessionCount (state h) + 1
   \<and> totalCycles (state (handleSessionComplete Break
        (handleSessionComplete Break (commitEffects h)))) = totalCycles (state h) + 1
   \<and> currentSession (state (handleSessionComplete Break
        (handleSessionComplete Break (commitEffects h)))) = Focus"
  by (cases session) (simp_all add: commitEffects_def)

text \<open>
  Each call of the handler calls \<^verbatim>\<open>onSessionComplete\<close> exactly once, and \<^verbatim>\<open>onCycleComplete\<close>
  after it when the completed session was a break.
\<close>

lemma handleSessionComplete_emits:
  "emitted (handleSessionComplete session h) =
     emitted h @ (case session of Focus \<Rightarrow> [OnSessionComplete Focus]
                  | Break \<Rightarrow> [OnSessionComplete Break, OnCycleComplete])"
  by (cases session) simp_all

text \<open>
  Two calls made within one render read the same ref, so the second stores the state the
  first one stored.
\<close>

lemma handleSessionComplete_same_render:
  "state (handleSessionComplete session (handleSessionComplete session h)) =
     state (handleSessionComplete session h)"
  by (cases session) simp_all

section \<open>Properties of the local countdown\<close>

lemmas countdown_ops =
  start_def pause_def stop_def reset_def setTime_def tick_def intervalCallback_def
  intervalActive_def

text \<open>
  C3. A countdown started with three seconds remaining and left alone completes: the run
  is four ticks long (three decrements, then the tick that finds zero), the completion
  callback is called exactly once in it, and the final state is Ended with zero seconds
  remaining. The interval is dead afterwards, so later seconds call nothing.
\<close>

theorem countdown_three_seconds_completes_once:
  assumes "totalSeconds (start opts s) = 3"
  shows "runToCompletion (start opts s) = exec opts (start opts s) [Tick, Tick, Tick, Tick]
       \<and> onCompleteCalls (runToCompletion (start opts s)) = onCompleteCalls s + 1
       \<and> phase (runToCompletion (start opts s)) = Ended
       \<and> isEnded (runToCompletion (start opts s))
       \<and> \<not> isRunning (runToCompletion (start opts s))
       \<and> \<not> isPaused (runToCompletion (start opts s))
       \<and> totalSeconds (runToCompletion (start opts s)) = 0
       \<and> tick (runToCompletion (start opts s)) = runToCompletion (start opts s)"
proof -
  define s0 where "s0 = start opts s"
  have a: "intervalActive s0" "totalSeconds s0 = 3" "onCompleteCalls s0 = onCompleteCalls s"
    "\<not> isPaused s0"
    using assms by (auto simp: s0_def start_def intervalActive_def)
  have r: "runToCompletion s0 =
      s0\<lparr>totalSeconds := 0, isRunning := False, isEnded := True,
         onCompleteCalls := onCompleteCalls s + 1\<rparr>"
    using a by (simp add: tick_def intervalCallback_def intervalActive_def)
  have e: "exec opts s0 [Tick, Tick, Tick, Tick] =
      s0\<lparr>totalSeconds := 0, isRunning := False, isEnded := True,
         onCompleteCalls := onCompleteCalls s + 1\<rparr>"
    using a by (simp add: tick_def intervalCallback_def intervalActive_def)
  show ?thesis
    unfolding s0_def[symmetric] r e using a
    by (simp add: phase_def tick_def intervalActive_def)
qed

theorem countdown_three_seconds_completes_once_witness:
  "totalSeconds (start threeSeconds (useCountdown threeSeconds)) = 3
   \<and> runToCompletion (start threeSeconds (useCountdown threeSeconds)) =
       \<lparr>isRunning = False, isPaused = False, isEnded = True, onCompleteCalls = 1,
        totalSeconds = 0\<rparr>"
proof -
  have h: "totalSeconds (start threeSeconds (useCountdown threeSeconds)) = 3"
    by (simp add: threeSeconds_def useCountdown_def start_def initialTotalSeconds_def)
  show ?thesis
    using h countdown_three_seconds_completes_once [OF h]
    by (simp add: threeSeconds_def useCountdown_def initialTotalSeconds_def countdown_ops)
qed

text \<open>
  C4. For \<open>minutes \<ge> 0\<close> and \<open>seconds\<close> in \<open>[0, 59]\<close>, \<open>setTime minutes seconds\<close> from any
  state leaves \<open>minutes * 60 + seconds\<close> remaining and the countdown Idle (all three flags
  false).
\<close>

theorem setTime_sets_remaining_and_idle:
  assumes "0 \<le> minutes" "0 \<le> seconds" "seconds \<le> 59"
  shows "totalSeconds (setTime minutes seconds s) = minutes * 60 + seconds
       \<and> phase (setTime minutes seconds s) = Idle
       \<and> \<not> isRunning (setTime minutes seconds s)
       \<and> \<not> isPaused (setTime minutes seconds s)
       \<and> \<not> isEnded (setTime minutes seconds s)"
  by (simp add: setTime_def phase_def)

theorem setTime_sets_remaining_and_idle_witness:
  "(0::int) \<le> 2 \<and> (0::int) \<le> 30 \<and> (30::int) \<le> 59
   \<and> totalSeconds (setTime 2 30 (start defaultOptions (useCountdown defaultOptions))) = 150
   \<and> phase (setTime 2 30 (start defaultOptions (useCountdown defaultOptions))) = Idle"
  using setTime_sets_remaining_and_idle [of 2 30 "start defaultOptions (useCountdown defaultOptions)"]
  by simp

text \<open>
  C5, as claimed, fails: \<open>setTime\<close> stores nothing but the remaining time. With options of
  five minutes, \<open>setTime 2 30\<close> followed by \<open>reset\<close> leaves 300 seconds, not 150; so does
  \<open>start\<close> from Ended.
\<close>

theorem reset_after_setTime_counterexample:
  "totalSeconds (reset \<lparr>initialMinutes = 5, initialSeconds = 0\<rparr>
      (setTime 2 30 (useCountdown \<lparr>initialMinutes = 5, initialSeconds = 0\<rparr>))) \<noteq> 2 * 60 + 30
   \<and> totalSeconds (start \<lparr>initialMinutes = 5, initialSeconds = 0\<rparr>
      (stop (setTime 2 30 (useCountdown \<lparr>initialMinutes = 5, initialSeconds = 0\<rparr>)))) \<noteq> 2 * 60 + 30"
  by (simp add: reset_def start_def stop_def initialTotalSeconds_def)

text \<open>
  C5, amended. The initial duration is fixed by the hook's options and \<open>setTime\<close> does not
  change it: after \<open>setTime\<close> and any further events, \<open>reset\<close> (and \<open>start\<close> from Ended)
  restores the remaining time to \<open>initialMinutes * 60 + initialSeconds\<close> of the options,
  whatever was passed to \<open>setTime\<close>.
\<close>

theorem reset_restores_options_duration:
  "totalSeconds (reset opts (exec opts (setTime minutes seconds s) es)) =
     initialMinutes opts * 60 + initialSeconds opts
   \<and> (isEnded (exec opts (setTime minutes seconds s) es) \<longrightarrow>
        totalSeconds (start opts (exec opts (setTime minutes seconds s) es)) =
          initialMinutes opts * 60 + initialSeconds opts)"
  by (simp add: reset_def start_def initialTotalSeconds_def)

theorem reset_restores_options_duration_witness:
  "isEnded (exec defaultOptions (setTime 2 30 (useCountdown defaultOptions)) [Start, Tick, Stop])
   \<and> totalSeconds (start defaultOptions
        (exec defaultOptions (setTime 2 30 (useCountdown defaultOptions)) [Start, Tick, Stop])) = 1500
   \<and> totalSeconds (reset defaultOptions
        (exec defaultOptions (setTime 2 30 (useCountdown defaultOptions)) [Start, Tick, Stop])) = 1500"
  using reset_restores_options_duration
    [of defaultOptions 2 30 "useCountdown defaultOptions" "[Start, Tick, Stop]"]
  by (simp add: defaultOptions_def useCountdown_def initialTotalSeconds_def countdown_ops)

text \<open>
  C6, as claimed, fails: a three-second countdown that has ticked three times shows zero
  and is still running; paused there, it has zero seconds remaining, is Paused, not
  Ended, and no tick will end it.
\<close>

theorem zero_remaining_while_paused_counterexample:
  "totalSeconds (exec threeSeconds (useCountdown threeSeconds) [Start, Tick, Tick, Tick, Pause]) = 0
   \<and> phase (exec threeSeconds (useCountdown threeSeconds) [Start, Tick, Tick, Tick, Pause]) = Paused
   \<and> \<not> isEnded (exec threeSeconds (useCountdown threeSeconds) [Start, Tick, Tick, Tick, Pause])
   \<and> \<not> isEnded (tick (exec threeSeconds (useCountdown threeSeconds)
                          [Start, Tick, Tick, Tick, Pause]))"
  by (simp add: threeSeconds_def useCountdown_def initialTotalSeconds_def countdown_ops phase_def)

lemma step_zeroInv:
  "0 < initialTotalSeconds opts \<Longrightarrow> positiveDuration e \<Longrightarrow> zeroInv s \<Longrightarrow> zeroInv (step opts s e)"
  by (cases e) (auto simp: zeroInv_def countdown_ops)

lemma exec_zeroInv:
  "0 < initialTotalSeconds opts \<Longrightarrow> list_all positiveDuration es \<Longrightarrow> zeroInv s
   \<Longrightarrow> zeroInv (exec opts s es)"
proof (induction es arbitrary: s)
  case Nil
  then show ?case by simp
next
  case (Cons e es)
  then show ?case using step_zeroInv [of opts e s] by simp
qed

text \<open>
  C6, amended. When every configured duration is positive (the options' and each
  \<open>setTime\<close>'s), the remaining time is never negative in a reachable state, and it is zero
  only when the countdown is not Idle and is Ended, or running with the next tick ending
  it, or paused at zero (then resuming and one tick end it).
\<close>

theorem zero_remaining_only_after_counting_down:
  assumes "0 < initialTotalSeconds opts" and "list_all positiveDuration es"
  shows "0 \<le> totalSeconds (exec opts (useCountdown opts) es)
       \<and> (totalSeconds (exec opts (useCountdown opts) es) = 0 \<longrightarrow>
            phase (exec opts (useCountdown opts) es) \<noteq> Idle
            \<and> (isEnded (exec opts (useCountdown opts) es)
               \<or> isEnded (tick (exec opts (useCountdown opts) es))
               \<or> isPaused (exec opts (useCountdown opts) es)
                   \<and> isEnded (tick (start opts (exec opts (useCountdown opts) es)))))"
proof -
  define s where "s = exec opts (useCountdown opts) es"
  have "zeroInv (useCountdown opts)"
    using assms(1) by (simp add: zeroInv_def useCountdown_def)
  then have inv: "zeroInv s"
    unfolding s_def using assms by (intro exec_zeroInv)
  have nonneg: "0 \<le> totalSeconds s"
    using inv by (simp add: zeroInv_def)
  have zero: "phase s \<noteq> Idle
      \<and> (isEnded s \<or> isEnded (tick s) \<or> isPaused s \<and> isEnded (tick (start opts s)))"
    if z: "totalSeconds s = 0"
  proof -
    from inv z have f: "isRunning s \<or> isPaused s \<or> isEnded s"
      by (simp add: zeroInv_def)
    have "phase s \<noteq> Idle"
      using f by (auto simp: phase_def)
    moreover have "isEnded s \<or> isEnded (tick s) \<or> isPaused s \<and> isEnded (tick (start opts s))"
      using f z by (auto simp: countdown_ops)
    ultimately show ?thesis by simp
  qed
  show ?thesis
    using nonneg zero unfolding s_def by simp
qed

theorem zero_remaining_only_after_counting_down_witness:
  "0 < initialTotalSeconds threeSeconds \<and> list_all positiveDuration [Start, Tick, Tick, Tick]
   \<and> totalSeconds (exec threeSeconds (useCountdown threeSeconds) [Start, Tick, Tick, Tick]) = 0
   \<and> phase (exec threeSeconds (useCountdown threeSeconds) [Start, Tick, Tick, Tick]) = Running
   \<and> isEnded (tick (exec threeSeconds (useCountdown threeSeconds) [Start, Tick, Tick, Tick]))"
  using zero_remaining_only_after_counting_down [of threeSeconds "[Start, Tick, Tick, Tick]"]
  by (simp add: threeSeconds_def useCountdown_def initialTotalSeconds_def countdown_ops phase_def)

lemma step_exclusive:
  "\<not> (isRunning s \<and> isPaused s) \<Longrightarrow> \<not> (isRunning (step opts s e) \<and> isPaused (step opts s e))"
  by (cases e) (auto simp: countdown_ops)

lemma exec_exclusive:
  "\<not> (isRunning s \<and> isPaused s) \<Longrightarrow> \<not> (isRunning (exec opts s es) \<and> isPaused (exec opts s es))"
proof (induction es arbitrary: s)
  case Nil
  then show ?case by simp
next
  case (Cons e es)
  from Cons.prems have "\<not> (isRunning (step opts s e) \<and> isPaused (step opts s e))"
    by (rule step_exclusive)
  then show ?case using Cons.IH by simp
qed

text \<open>
  C9. In every state reached from the initial one by start, pause, stop, reset, setTime
  and tick events, \<open>isRunning\<close> and \<open>isPaused\<close> are not both true.
\<close>

theorem running_and_paused_exclusive:
  "\<not> (isRunning (exec opts (useCountdown opts) es) \<and> isPaused (exec opts (useCountdown opts) es))"
  by (rule exec_exclusive) (simp add: useCountdown_def)

section \<open>Properties of the service-driven countdown\<close>

lemmas ipc_ops =
  start_ipc_def pause_ipc_def stop_ipc_def reset_ipc_def setTime_ipc_def
  onTimerTick_def onTimerDone_def syncTimerState_def handleFocus_def

text \<open>
  C2, as claimed, fails: the \<^verbatim>\<open>timer://done\<close> listener has no test, so after a started
  three-second run two done notifications raise the number of completion calls by two.
\<close>

theorem duplicate_done_counterexample:
  "onCompleteCalls (onTimerDone (onTimerDone
      (start_ipc threeSeconds (Resolved ()) (useCountdown_ipc threeSeconds))))
   \<noteq> onCompleteCalls (start_ipc threeSeconds (Resolved ()) (useCountdown_ipc threeSeconds)) + 1"
  by (simp add: ipc_ops useCountdown_ipc_def)

text \<open>
  C2, amended. Every done notification calls the completion callback once, whatever the
  state: two of them call it twice, and nothing is detected or discarded. The only guard
  is the flag test of the resynchronisation. When the countdown that processed the done
  notification was not paused, neither \<open>syncTimerState\<close> nor the focus handler calls the
  callback again, whatever the service answers. When it was paused, the listener leaves
  \<open>isPaused\<close> set, and a resynchronisation that reads zero remaining calls the callback
  once more.
\<close>

theorem done_calls_completion_every_time:
  "onCompleteCalls (onTimerDone s) = onCompleteCalls s + 1
   \<and> onCompleteCalls (onTimerDone (onTimerDone s)) = onCompleteCalls s + 2
   \<and> (\<not> isPaused s \<longrightarrow>
        onCompleteCalls (syncTimerState r (onTimerDone s)) = onCompleteCalls s + 1
        \<and> onCompleteCalls (handleFocus r (onTimerDone s)) = onCompleteCalls s + 1)
   \<and> (isPaused s \<longrightarrow>
        onCompleteCalls (syncTimerState (Resolved (Some 0)) (onTimerDone s)) =
          onCompleteCalls s + 2
        \<and> onCompleteCalls (handleFocus (Resolved (Some 0)) (onTimerDone s)) =
          onCompleteCalls s + 2)"
  by (simp add: ipc_ops ceilSeconds_def split: invoke_result.splits option.splits)

theorem done_calls_completion_every_time_witness:
  "\<not> isPaused (start_ipc threeSeconds (Resolved ()) (useCountdown_ipc threeSeconds))
   \<and> onCompleteCalls (handleFocus (Resolved (Some 0)) (onTimerDone
        (start_ipc threeSeconds (Resolved ()) (useCountdown_ipc threeSeconds)))) = 1
   \<and> isPaused (pause_ipc (Resolved ())
        (start_ipc threeSeconds (Resolved ()) (useCountdown_ipc threeSeconds)))
   \<and> onCompleteCalls (handleFocus (Resolved (Some 0)) (onTimerDone (pause_ipc (Resolved ())
        (start_ipc threeSeconds (Resolved ()) (useCountdown_ipc threeSeconds))))) = 2"
  using done_calls_completion_every_time
      [of "start_ipc threeSeconds (Resolved ()) (useCountdown_ipc threeSeconds)"
          "Resolved (Some 0)"]
    done_calls_completion_every_time
      [of "pause_ipc (Resolved ())
             (start_ipc threeSeconds (Resolved ()) (useCountdown_ipc threeSeconds))"
          "Resolved (Some 0)"]
  by (simp add: ipc_ops useCountdown_ipc_def)

text \<open>
  The sibling paths of C7: a rejected service call leaves the state as it was in \<open>pause\<close>,
  \<open>stop\<close>, \<open>reset\<close>, \<open>setTime\<close>, and in \<open>start\<close> from a countdown that has not ended.
\<close>

lemma rejected_call_keeps_state:
  "pause_ipc Rejected s = s"
  "stop_ipc Rejected s = s"
  "reset_ipc opts Rejected s = s"
  "setTime_ipc minutes seconds Rejected s = s"
  "\<not> isEnded s \<Longrightarrow> start_ipc opts Rejected s = s"
  by (simp_all add: ipc_ops)

text \<open>
  C7 at its failing input. A default countdown is started and receives its done
  notification: it is Ended with zero seconds. \<open>start\<close> with a rejected \<^verbatim>\<open>start_timer\<close> call
  then leaves it with 1500 seconds and all flags false (Idle): phase and remaining
  time are not retained.
\<close>

theorem start_rejected_from_ended_changes_state:
  "onTimerDone (start_ipc defaultOptions (Resolved ()) (useCountdown_ipc defaultOptions)) =
     \<lparr>isRunning = False, isPaused = False, isEnded = True, onCompleteCalls = 1,
      currentTotalSeconds = 0\<rparr>
   \<and> start_ipc defaultOptions Rejected
       \<lparr>isRunning = False, isPaused = False, isEnded = True, onCompleteCalls = 1,
        currentTotalSeconds = 0\<rparr> =
     \<lparr>isRunning = False, isPaused = False, isEnded = False, onCompleteCalls = 1,
      currentTotalSeconds = 1500\<rparr>
   \<and> phase \<lparr>isRunning = False, isPaused = False, isEnded = True, onCompleteCalls = 1,
            currentTotalSeconds = 0\<rparr> = Ended
   \<and> phase \<lparr>isRunning = False, isPaused = False, isEnded = False, onCompleteCalls = 1,
            currentTotalSeconds = 1500\<rparr> = Idle"
  by (simp add: ipc_ops useCountdown_ipc_def defaultOptions_def initialTotalSeconds_def phase_def)

text \<open>The service-driven operations and listeners keep the two flags exclusive as well.\<close>

lemma ipc_exclusive:
  assumes "\<not> (isRunning s \<and> isPaused s)"
  shows "\<not> (isRunning (start_ipc opts r s) \<and> isPaused (start_ipc opts r s))"
    and "\<not> (isRunning (pause_ipc r s) \<and> isPaused (pause_ipc r s))"
    and "\<not> (isRunning (stop_ipc r s) \<and> isPaused (stop_ipc r s))"
    and "\<not> (isRunning (reset_ipc opts r s) \<and> isPaused (reset_ipc opts r s))"
    and "\<not> (isRunning (setTime_ipc minutes seconds r s)
             \<and> isPaused (setTime_ipc minutes seconds r s))"
    and "\<not> (isRunning (onTimerTick ms s) \<and> isPaused (onTimerTick ms s))"
    and "\<not> (isRunning (onTimerDone s) \<and> isPaused (onTimerDone s))"
    and "\<not> (isRunning (syncTimerState q s) \<and> isPaused (syncTimerState q s))"
  using assms by (auto simp: ipc_ops split: invoke_result.splits option.splits)

section \<open>Properties of the application\<close>

lemmas app_ops =
  handleFocusMinutesChange_def handleBreakMinutesChange_def sessionChangeEffect_def
  updateConfigEffect_def currentTime_def updateConfig_def

text \<open>
  C8, as claimed, fails: with 25 and 5 minutes configured and the focus countdown running
  at 1500 seconds, changing the focus duration to 30 minutes leaves the countdown Idle
  at 1800 seconds.
\<close>

theorem config_change_resets_running_countdown_counterexample:
  "phase (countdown (clickStart (mountApp 25 5))) = Running
   \<and> totalSeconds (countdown (clickStart (mountApp 25 5))) = 1500
   \<and> phase (countdown (handleFocusMinutesChange 30 (clickStart (mountApp 25 5)))) = Idle
   \<and> totalSeconds (countdown (handleFocusMinutesChange 30 (clickStart (mountApp 25 5)))) = 1800"
  by (simp add: app_ops mountApp_def clickStart_def usePomodoro_def initialState_def
      useCountdown_def reset_def setTime_def start_def phase_def initialTotalSeconds_def)

text \<open>
  C8, amended. Changing \<open>focusMinutes\<close> or \<open>breakMinutes\<close> to a different value resets the
  countdown at once, whatever its phase: all three flags become false (Idle) and the
  remaining time becomes sixty times the minutes now configured for the current session.
  Storing the value already held changes nothing.
\<close>

theorem config_change_resets_countdown:
  "(newFocus \<noteq> app_focusMinutes a \<longrightarrow>
      countdown (handleFocusMinutesChange newFocus a) =
        (countdown a)\<lparr>totalSeconds :=
            (if currentSession (state (pomodoro a)) = Focus then newFocus
             else app_breakMinutes a) * 60,
          isRunning := False, isPaused := False, isEnded := False\<rparr>
      \<and> phase (countdown (handleFocusMinutesChange newFocus a)) = Idle)
   \<and> (newBreak \<noteq> app_breakMinutes a \<longrightarrow>
      countdown (handleBreakMinutesChange newBreak a) =
        (countdown a)\<lparr>totalSeconds :=
            (if currentSession (state (pomodoro a)) = Focus then app_focusMinutes a
             else newBreak) * 60,
          isRunning := False, isPaused := False, isEnded := False\<rparr>
      \<and> phase (countdown (handleBreakMinutesChange newBreak a)) = Idle)
   \<and> handleFocusMinutesChange (app_focusMinutes a) a = a
   \<and> handleBreakMinutesChange (app_breakMinutes a) a = a"
  by (simp add: app_ops reset_def setTime_def phase_def)

theorem config_change_resets_countdown_witness:
  "(30::int) \<noteq> app_focusMinutes (clickPause (clickStart (mountApp 25 5)))
   \<and> (10::int) \<noteq> app_breakMinutes (clickPause (clickStart (mountApp 25 5)))
   \<and> phase (countdown (clickPause (clickStart (mountApp 25 5)))) = Paused
   \<and> countdown (handleFocusMinutesChange 30 (clickPause (clickStart (mountApp 25 5)))) =
      \<lparr>isRunning = False, isPaused = False, isEnded = False, onCompleteCalls = 0,
       totalSeconds = 1800\<rparr>
   \<and> countdown (handleBreakMinutesChange 10 (clickPause (clickStart (mountApp 25 5)))) =
      \<lparr>isRunning = False, isPaused = False, isEnded = False, onCompleteCalls = 0,
       totalSeconds = 1500\<rparr>"
  using config_change_resets_countdown [of 30 "clickPause (clickStart (mountApp 25 5))" 10]
  by (simp add: app_ops mountApp_def clickStart_def clickPause_def usePomodoro_def
      initialState_def useCountdown_def reset_def setTime_def start_def pause_def phase_def
      initialTotalSeconds_def)

end
